theory Spec2Isabelle
  imports Main
begin

section \<open>Regular expressions as the handlers use them\<close>

subsection \<open>The pattern of the detector, on the bytes of the body\<close>

text \<open>
  \<^verbatim>\<open>subreddit_regex\<close> is built from literals, one optional one-character group, one
  group repeating a character class, and the anchors \<^verbatim>\<open>^\<close> and \<^verbatim>\<open>$\<close>. A pattern is
  a list of alternatives, an alternative a list of items. The matcher backtracks as
  Python's \<^verbatim>\<open>re\<close> does: an optional group is tried present first, a repetition
  longest first, alternatives left to right, start positions left to right.

  The body of a comment is a byte string (UTF-8). \<^verbatim>\<open>subreddit_regex\<close> names its
  characters one by one, all of them ASCII, and is compiled without flags, so
  matching it on the bytes and on the code points gives the same result and the
  same name.

  The matcher's state is the character before the current position (\<open>None\<close> at the
  start of the string) and the rest of the string. The result is the tuple that
  \<^verbatim>\<open>groups()\<close> returns: one entry per group, \<open>None\<close> for a group that took no part.
\<close>

datatype re_item =
    Bol
  | Eol
  | Lit char
  | OptGroup char
  | PlusGroup "char \<Rightarrow> bool"

type_synonym regex = "re_item list list"
type_synonym groups = "string option list"

definition LF :: char where
  "LF = CHR 0x0A"

definition in_range :: "char \<Rightarrow> char \<Rightarrow> char \<Rightarrow> bool" where
  "in_range lo hi c = ((of_char lo :: nat) \<le> of_char c \<and> (of_char c :: nat) \<le> of_char hi)"

fun first_some :: "('a \<Rightarrow> 'b option) \<Rightarrow> 'a list \<Rightarrow> 'b option" where
  "first_some f [] = None"
| "first_some f (x # xs) = (case f x of Some y \<Rightarrow> Some y | None \<Rightarrow> first_some f xs)"

text \<open>
  The ways a greedy \<^verbatim>\<open>[...]+\<close> can split the input, in the order the matcher tries
  them: the longest run first, then one character less, down to a single character.
\<close>

fun plus_splits :: "(char \<Rightarrow> bool) \<Rightarrow> string \<Rightarrow> (string \<times> string) list" where
  "plus_splits C [] = []"
| "plus_splits C (x # xs) =
     (if C x then map (\<lambda>(t, r). (x # t, r)) (plus_splits C xs) @ [([x], xs)] else [])"

fun re_match :: "re_item list \<Rightarrow> char option \<Rightarrow> string \<Rightarrow> groups option" where
  "re_match [] prev s = Some []"
| "re_match (Bol # items) prev s =
     (if prev = None then re_match items prev s else None)"
| "re_match (Eol # items) prev s =
     (if s = [] \<or> s = [LF] then re_match items prev s else None)"
| "re_match (Lit c # items) prev s =
     (case s of
        [] \<Rightarrow> None
      | x # xs \<Rightarrow> if x = c then re_match items (Some x) xs else None)"
| "re_match (OptGroup c # items) prev s =
     (case (case s of
              [] \<Rightarrow> None
            | x # xs \<Rightarrow>
                if x = c
                then map_option (\<lambda>g. Some [x] # g) (re_match items (Some x) xs)
                else None) of
        Some g \<Rightarrow> Some g
      | None \<Rightarrow> map_option (\<lambda>g. None # g) (re_match items prev s))"
| "re_match (PlusGroup C # items) prev s =
     first_some (\<lambda>(t, r). map_option (\<lambda>g. Some t # g) (re_match items (Some (last t)) r))
       (plus_splits C s)"

fun re_search_from :: "regex \<Rightarrow> char option \<Rightarrow> string \<Rightarrow> groups option" where
  "re_search_from alts prev [] = first_some (\<lambda>items. re_match items prev []) alts"
| "re_search_from alts prev (x # xs) =
     (case first_some (\<lambda>items. re_match items prev (x # xs)) alts of
        Some g \<Rightarrow> Some g
      | None \<Rightarrow> re_search_from alts (Some x) xs)"

definition re_search :: "regex \<Rightarrow> string \<Rightarrow> groups option" where
  "re_search re s = re_search_from re None s"

subsection \<open>The pattern of the title filter, on code points\<close>

text \<open>
  \<^verbatim>\<open>prohibited_phrases\<close> is a \<^verbatim>\<open>str\<close> pattern compiled with \<^verbatim>\<open>re.IGNORECASE\<close>: its
  \<^verbatim>\<open>\b\<close> and its letters follow Unicode. The strings it is matched on, and those
  that \<^verbatim>\<open>str.lower\<close> is applied to, are therefore lists of code points, and what
  Python reads in its Unicode database is a parameter:
  \<^item> \<open>uni_is_word\<close>: the code point is a word character (\<^verbatim>\<open>\w\<close> of a \<^verbatim>\<open>str\<close>
    pattern: alphanumeric in Unicode, or the underscore);
  \<^item> \<open>uni_ignorecase_match p x\<close>: under \<^verbatim>\<open>re.IGNORECASE\<close> the character \<open>p\<close> of a
    pattern matches the character \<open>x\<close> of the text;
  \<^item> \<open>uni_lower\<close>: \<^verbatim>\<open>str.lower\<close>.

  The pattern is built from literals and \<^verbatim>\<open>\b\<close> and has no group; what the code
  asks of a search is whether there is a match.
\<close>

type_synonym codepoint = nat
type_synonym py_str = "codepoint list"

text \<open>The \<^verbatim>\<open>str\<close> that an ASCII string spells.\<close>

definition str_of :: "string \<Rightarrow> py_str" where
  "str_of s = map of_char s"

record unicode_tables =
  uni_is_word :: "codepoint \<Rightarrow> bool"
  uni_ignorecase_match :: "codepoint \<Rightarrow> codepoint \<Rightarrow> bool"
  uni_lower :: "py_str \<Rightarrow> py_str"

datatype str_item =
    WordB
  | StrLit codepoint

record str_regex =
  alternatives :: "str_item list list"
  ignorecase :: bool

definition at_word_boundary :: "unicode_tables \<Rightarrow> codepoint option \<Rightarrow> py_str \<Rightarrow> bool" where
  "at_word_boundary U prev s =
     ((case prev of None \<Rightarrow> False | Some p \<Rightarrow> uni_is_word U p)
        \<noteq> (case s of [] \<Rightarrow> False | x # _ \<Rightarrow> uni_is_word U x))"

definition str_lit_matches :: "unicode_tables \<Rightarrow> bool \<Rightarrow> codepoint \<Rightarrow> codepoint \<Rightarrow> bool" where
  "str_lit_matches U ic p x = (if ic then uni_ignorecase_match U p x else x = p)"

fun str_match ::
  "unicode_tables \<Rightarrow> bool \<Rightarrow> str_item list \<Rightarrow> codepoint option \<Rightarrow> py_str \<Rightarrow> bool" where
  "str_match U ic [] prev s = True"
| "str_match U ic (WordB # items) prev s =
     (if at_word_boundary U prev s then str_match U ic items prev s else False)"
| "str_match U ic (StrLit p # items) prev s =
     (case s of
        [] \<Rightarrow> False
      | x # xs \<Rightarrow> if str_lit_matches U ic p x then str_match U ic items (Some x) xs else False)"

fun str_search_from ::
  "unicode_tables \<Rightarrow> bool \<Rightarrow> str_item list list \<Rightarrow> codepoint option \<Rightarrow> py_str \<Rightarrow> bool" where
  "str_search_from U ic alts prev [] = list_ex (\<lambda>items. str_match U ic items prev []) alts"
| "str_search_from U ic alts prev (x # xs) =
     (if list_ex (\<lambda>items. str_match U ic items prev (x # xs)) alts then True
      else str_search_from U ic alts (Some x) xs)"

text \<open>\<^verbatim>\<open>re.search(s) is not None\<close>\<close>

definition str_search :: "unicode_tables \<Rightarrow> str_regex \<Rightarrow> py_str \<Rightarrow> bool" where
  "str_search U re s = str_search_from U (ignorecase re) (alternatives re) None s"

section \<open>Comments and submissions\<close>

text \<open>
  The body of a comment is kept as bytes, the title of its submission and the name
  of its subreddit as code points: they are what the title filter and
  \<^verbatim>\<open>str.lower\<close> work on. Identifiers, links and URLs are only passed on and
  compared, and are byte strings.
\<close>

record submission =
  submission_title :: py_str
  submission_url :: string
  submission_permalink :: string

record comment =
  comment_id :: string
  body :: string
  permalink :: string
  parent_id :: string
  link_id :: string
  distinguished :: "string option"
  subreddit_display_name :: py_str
  comment_submission :: submission
  score :: int

section \<open>The pattern detector\<close>

text \<open>\<^verbatim>\<open>subreddit_regex = re.compile(r'^(/)?r/([a-zA-Z0-9-_]+)$')\<close>\<close>

definition subreddit_name_char :: "char \<Rightarrow> bool" where
  "subreddit_name_char c = (in_range (CHR ''a'') (CHR ''z'') c \<or> in_range (CHR ''A'') (CHR ''Z'') c
     \<or> in_range (CHR ''0'') (CHR ''9'') c \<or> c = CHR ''-'' \<or> c = CHR ''_'')"

definition subreddit_regex :: regex where
  "subreddit_regex =
     [[Bol, OptGroup (CHR ''/''), Lit (CHR ''r''), Lit (CHR ''/''),
       PlusGroup subreddit_name_char, Eol]]"

definition check_pattern :: "comment \<Rightarrow> string option" where
  "check_pattern c =
     (case re_search subreddit_regex (body c) of
        None \<Rightarrow> None
      | Some groups \<Rightarrow> groups ! 1)"

text \<open>
  The shape the specification describes, written from its words: the string is
  \<^verbatim>\<open>r/<name>\<close> or \<^verbatim>\<open>/r/<name>\<close>, the name one or more letters, digits, hyphens
  or underscores. \<open>trimmed\<close> is Python's \<^verbatim>\<open>str.strip()\<close> on ASCII whitespace.
\<close>

definition is_subreddit_reference :: "string \<Rightarrow> string \<Rightarrow> bool" where
  "is_subreddit_reference s name =
     (name \<noteq> [] \<and> list_all subreddit_name_char name \<and> (s = ''r/'' @ name \<or> s = ''/r/'' @ name))"

definition is_space :: "char \<Rightarrow> bool" where
  "is_space c = (c = CHR '' '' \<or> in_range (CHR 0x09) (CHR 0x0D) c \<or> in_range (CHR 0x1C) (CHR 0x1F) c)"

definition trimmed :: "string \<Rightarrow> string" where
  "trimmed s = rev (dropWhile is_space (rev (dropWhile is_space s)))"

section \<open>Python values, exceptions and the outside world\<close>

datatype exc_arg = StrArg string | OtherArg

record response =
  response_text :: string

text \<open>
  An exception raised by the search: its \<^verbatim>\<open>args\<close> tuple and its \<^verbatim>\<open>response\<close>
  attribute (\<open>None\<close> when the exception object has no such attribute).
\<close>

record search_exception =
  exc_args :: "exc_arg list"
  exc_response :: "response option"

text \<open>
  What \<^verbatim>\<open>json.loads\<close> returns. An object carries the items of the resulting
  dictionary, each key once.
\<close>

datatype json =
    JObject "(string \<times> json) list"
  | JArray "json list"
  | JString string
  | JNumber int
  | JBool bool
  | JNull

datatype fetch_exception = ClientException | OtherFetchException

datatype py_error =
    IndexError
  | AttributeError string
  | KeyError string
  | TypeError
  | NameError string
  | SearchFailure search_exception
  | FetchFailure fetch_exception

record comment_entry =
  entry_comment_id :: string
  entry_permalink :: string

datatype account = DefaultAccount | SAME_SUBREDDIT_BOT_NAME | SUB_DOESNT_EXIST_BOT_NAME

text \<open>
  The calls that leave the process, in the order they are made. \<open>PostReply\<close> carries
  the account that replies, the comment replied to, the key of the translated
  template, the target subreddit and the permalink the template is filled with.
\<close>

datatype event =
    SearchQuery string string
  | RepostLookup string string
  | PostReply account string string string "string option"
  | AddComment comment
  | FetchComment string
  | SetCommentChecked comment_entry
  | DeleteComment comment_entry

fun is_side_effect :: "event \<Rightarrow> bool" where
  "is_side_effect (PostReply a c k t p) = True"
| "is_side_effect (AddComment c) = True"
| "is_side_effect (SetCommentChecked e) = True"
| "is_side_effect (DeleteComment e) = True"
| "is_side_effect (SearchQuery t q) = False"
| "is_side_effect (RepostLookup c t) = False"
| "is_side_effect (FetchComment u) = False"

fun is_reply :: "event \<Rightarrow> bool" where
  "is_reply (PostReply a c k t p) = True"
| "is_reply e = False"

fun is_staging_insert :: "event \<Rightarrow> bool" where
  "is_staging_insert (AddComment c) = True"
| "is_staging_insert e = False"

text \<open>
  The collaborators outside the three source files, as parameters: the platform's
  search (\<^verbatim>\<open>reddit.subreddit(s).search(...)\<close>, iterated to a list), the repost
  detector, \<^verbatim>\<open>json.loads\<close> (\<open>None\<close> is \<^verbatim>\<open>JSONDecodeError\<close>), the blacklist
  \<^verbatim>\<open>consts.SUB_BLACKLIST\<close>, the fetch of a comment by URL, the environment
  variable \<^verbatim>\<open>COMMENT_SCORE_THRESHOLD\<close> (\<open>None\<close> when it is not set), and the
  Unicode tables of the Python that runs the handlers.
\<close>

record world =
  reddit_search :: "string \<Rightarrow> string \<Rightarrow> search_exception + submission list"
  get_reposts_in_sub :: "comment \<Rightarrow> string \<Rightarrow> submission list"
  json_loads :: "string \<Rightarrow> json option"
  SUB_BLACKLIST :: "py_str list"
  reddit_comment :: "string \<Rightarrow> fetch_exception + comment"
  COMMENT_SCORE_THRESHOLD :: "int option"
  unicode :: unicode_tables

section \<open>Phase 1: the incoming comment\<close>

definition SUBREDDIT_NAME_LENGTH_LIMIT :: nat where
  "SUBREDDIT_NAME_LENGTH_LIMIT = 24"

definition is_mod_post :: "comment \<Rightarrow> bool" where
  "is_mod_post c = (distinguished c = Some ''moderator'')"

definition is_top_level_comment :: "comment \<Rightarrow> bool" where
  "is_top_level_comment c = (parent_id c = link_id c)"

text \<open>
  \<^verbatim>\<open>prohibited_phrases\<close>: each phrase between two \<^verbatim>\<open>\b\<close>, joined by \<^verbatim>\<open>|\<close>, compiled
  with \<^verbatim>\<open>re.IGNORECASE\<close>.
\<close>

definition prohibited_phrases :: str_regex where
  "prohibited_phrases =
     \<lparr>alternatives =
        map (\<lambda>x. [WordB] @ map StrLit (str_of x) @ [WordB])
          [''sub'', ''subs'', ''subreddit'', ''subreddits''],
      ignorecase = True\<rparr>"

definition title_contains_prohibited_phrases :: "unicode_tables \<Rightarrow> comment \<Rightarrow> bool" where
  "title_contains_prohibited_phrases U c =
     str_search U prohibited_phrases (submission_title (comment_submission c))"

text \<open>The local class \<^verbatim>\<open>Result\<close> of \<^verbatim>\<open>get_posts_with_same_content\<close> and its defaults.\<close>

record search_result =
  posts_found :: bool
  posts :: "submission list"
  unable_to_search :: bool
  unable_to_search_reason :: "string option"

definition new_search_result :: search_result where
  "new_search_result =
     \<lparr>posts_found = False, posts = [], unable_to_search = False, unable_to_search_reason = None\<rparr>"

definition search_query :: "comment \<Rightarrow> string" where
  "search_query c = ''url:'' @ [CHR 0x22] @ submission_url (comment_submission c) @ [CHR 0x22]"

text \<open>
  \<^verbatim>\<open>response_obj['reason'] == 'banned'\<close> inside the \<^verbatim>\<open>try\<close> that catches
  \<^verbatim>\<open>json.JSONDecodeError\<close> only: a dictionary without the key raises \<^verbatim>\<open>KeyError\<close>,
  a value that is not a dictionary raises \<^verbatim>\<open>TypeError\<close>, and both leave the function.
\<close>

fun reason_is_banned :: "json option \<Rightarrow> py_error + bool" where
  "reason_is_banned None = Inr False"
| "reason_is_banned (Some (JObject items)) =
     (case map_of items ''reason'' of
        None \<Rightarrow> Inl (KeyError ''reason'')
      | Some v \<Rightarrow> Inr (v = JString ''banned''))"
| "reason_is_banned (Some v) = Inl TypeError"

text \<open>The \<^verbatim>\<open>except Exception as e\<close> block of \<^verbatim>\<open>get_posts_with_same_content\<close>.\<close>

definition handle_search_exception ::
  "world \<Rightarrow> search_result \<Rightarrow> search_exception \<Rightarrow> py_error + search_result" where
  "handle_search_exception w result e =
     (case exc_args e of
        [] \<Rightarrow> Inl IndexError
      | error_message # _ \<Rightarrow>
          if error_message = StrArg ''Redirect to /submit'' then Inr result
          else if error_message \<in> set [StrArg ''Redirect to /subreddits/search'',
                                        StrArg ''received 404 HTTP response''] then
            (case exc_response e of
               None \<Rightarrow> Inl (AttributeError ''response'')
             | Some r \<Rightarrow>
                 (case (if response_text r \<noteq> [] then reason_is_banned (json_loads w (response_text r))
                        else Inr False) of
                    Inl err \<Rightarrow> Inl err
                  | Inr True \<Rightarrow>
                      Inr (result\<lparr>unable_to_search := True,
                                  unable_to_search_reason := Some ''SUBREDDIT_IS_BANNED''\<rparr>)
                  | Inr False \<Rightarrow>
                      Inr (result\<lparr>unable_to_search := True,
                                  unable_to_search_reason := Some ''SUBREDDIT_DOES_NOT_EXIST''\<rparr>)))
          else if error_message = StrArg ''received 403 HTTP response'' then
            Inr (result\<lparr>unable_to_search := True,
                        unable_to_search_reason := Some ''SUBREDDIT_IS_PRIVATE''\<rparr>)
          else Inl (SearchFailure e))"

definition get_posts_with_same_content ::
  "world \<Rightarrow> comment \<Rightarrow> string \<Rightarrow> event list \<times> (py_error + search_result)" where
  "get_posts_with_same_content w c subreddit =
     (let result = new_search_result;
          query = search_query c
      in case reddit_search w subreddit query of
           Inl e \<Rightarrow> ([SearchQuery subreddit query], handle_search_exception w result e)
         | Inr submissions \<Rightarrow>
             if length submissions > 0 then
               ([SearchQuery subreddit query],
                Inr (result\<lparr>posts_found := True, posts := submissions\<rparr>))
             else
               (let prior_posts = get_reposts_in_sub w c subreddit
                in ([SearchQuery subreddit query, RepostLookup (comment_id c) subreddit],
                    Inr (if prior_posts \<noteq> []
                         then result\<lparr>posts_found := True, posts := prior_posts\<rparr>
                         else result))))"

definition reply_to_source_equals_target_comment :: "comment \<Rightarrow> string \<Rightarrow> event list" where
  "reply_to_source_equals_target_comment source_comment target_subreddit =
     [PostReply SAME_SUBREDDIT_BOT_NAME (comment_id source_comment)
        ''THATS_WHERE_WE_ARE'' target_subreddit None]"

definition reply_to_nonexistent_target_subreddit_comment :: "comment \<Rightarrow> string \<Rightarrow> event list" where
  "reply_to_nonexistent_target_subreddit_comment source_comment target_subreddit =
     [PostReply SUB_DOESNT_EXIST_BOT_NAME (comment_id source_comment)
        ''NONEXISTENT_SUBREDDIT'' target_subreddit None]"

definition reply_to_same_content_post_comment ::
  "comment \<Rightarrow> string \<Rightarrow> submission \<Rightarrow> event list" where
  "reply_to_same_content_post_comment source_comment target_subreddit post_with_same_content =
     [PostReply DefaultAccount (comment_id source_comment)
        ''FOUND_POST_WITH_SAME_CONTENT'' target_subreddit
        (Some (submission_permalink post_with_same_content))]"

text \<open>
  The target that \<^verbatim>\<open>check_pattern\<close> returns consists of ASCII characters, so
  \<open>str_of\<close> gives its code points.
  The result is the trace of calls and the exception that left the function, if any.
  A reply and the insertion into the staging store are each the last call before a
  \<^verbatim>\<open>return\<close>, so the trace holds the call whether or not the call itself raises.
\<close>

definition handle_incoming_comment :: "world \<Rightarrow> comment \<Rightarrow> event list \<times> py_error option" where
  "handle_incoming_comment w c =
     (case check_pattern c of
        None \<Rightarrow> ([], None)
      | Some target_subreddit \<Rightarrow>
          if length target_subreddit > SUBREDDIT_NAME_LENGTH_LIMIT then ([], None)
          else if is_mod_post c then ([], None)
          else if title_contains_prohibited_phrases (unicode w) c then ([], None)
          else
            (let source_subreddit = uni_lower (unicode w) (subreddit_display_name c)
             in if uni_lower (unicode w) (str_of target_subreddit) \<in> set (SUB_BLACKLIST w)
                   \<or> source_subreddit \<in> set (SUB_BLACKLIST w) then ([], None)
                else if uni_lower (unicode w) (str_of target_subreddit) = source_subreddit then
                  (reply_to_source_equals_target_comment c target_subreddit, None)
                else
                  (case get_posts_with_same_content w c target_subreddit of
                     (tr, Inl err) \<Rightarrow> (tr, Some err)
                   | (tr, Inr result_obj) \<Rightarrow>
                       if posts_found result_obj then
                         (case posts result_obj of
                            [] \<Rightarrow> (tr, Some IndexError)
                          | post_with_same_content # _ \<Rightarrow>
                              (tr @ reply_to_same_content_post_comment c target_subreddit
                                      post_with_same_content, None))
                       else if unable_to_search result_obj
                               \<and> unable_to_search_reason result_obj = Some ''SUBREDDIT_DOES_NOT_EXIST''
                       then (tr @ reply_to_nonexistent_target_subreddit_comment c target_subreddit, None)
                       else if \<not> is_top_level_comment c then (tr, None)
                       else (tr @ [AddComment c], None))))"

text \<open>
  The comments for which \<^verbatim>\<open>handle_incoming_comment\<close> reaches the search for
  \<open>target_subreddit\<close>: the pattern matched and no filter before the search returned.
\<close>

definition reaches_search :: "world \<Rightarrow> comment \<Rightarrow> string \<Rightarrow> bool" where
  "reaches_search w c target_subreddit =
     (check_pattern c = Some target_subreddit
      \<and> length target_subreddit \<le> SUBREDDIT_NAME_LENGTH_LIMIT
      \<and> \<not> is_mod_post c
      \<and> \<not> title_contains_prohibited_phrases (unicode w) c
      \<and> uni_lower (unicode w) (str_of target_subreddit) \<notin> set (SUB_BLACKLIST w)
      \<and> uni_lower (unicode w) (subreddit_display_name c) \<notin> set (SUB_BLACKLIST w)
      \<and> uni_lower (unicode w) (str_of target_subreddit)
          \<noteq> uni_lower (unicode w) (subreddit_display_name c))"

section \<open>Phase 2: the filters on aged entries\<close>

subsection \<open>The body of a class statement\<close>

text \<open>
  \<^verbatim>\<open>run_filters\<close> begins with a class statement. Python runs the body of a class
  statement in a namespace of its own, one assignment after the other. A name that
  the body assigns is local to the body, so reading it looks in the class namespace,
  then in the module's globals, then in the builtins, and never in the enclosing
  function; a name found in none of them raises \<^verbatim>\<open>NameError\<close>.
\<close>

datatype py_value =
    PyNone
  | PyBool bool
  | PyStr string
  | PyModule string
  | PyFunction string
  | PyBuiltin string

datatype class_stmt =
    AssignConst string py_value
  | AssignName string string

type_synonym namespace = "(string \<times> py_value) list"

definition load_name :: "namespace \<Rightarrow> namespace \<Rightarrow> namespace \<Rightarrow> string \<Rightarrow> py_error + py_value" where
  "load_name class_ns globals builtins n =
     (case map_of class_ns n of
        Some v \<Rightarrow> Inr v
      | None \<Rightarrow>
          (case map_of globals n of
             Some v \<Rightarrow> Inr v
           | None \<Rightarrow>
               (case map_of builtins n of
                  Some v \<Rightarrow> Inr v
                | None \<Rightarrow> Inl (NameError n))))"

fun exec_class_body ::
  "namespace \<Rightarrow> namespace \<Rightarrow> class_stmt list \<Rightarrow> namespace \<Rightarrow> py_error + namespace" where
  "exec_class_body globals builtins [] class_ns = Inr class_ns"
| "exec_class_body globals builtins (AssignConst x v # stmts) class_ns =
     exec_class_body globals builtins stmts ((x, v) # class_ns)"
| "exec_class_body globals builtins (AssignName x n # stmts) class_ns =
     (case load_name class_ns globals builtins n of
        Inl err \<Rightarrow> Inl err
      | Inr v \<Rightarrow> exec_class_body globals builtins stmts ((x, v) # class_ns))"

text \<open>The names that \<^verbatim>\<open>phase2_handler.py\<close> binds at module level, and those every module has.\<close>

definition phase2_handler_globals :: namespace where
  "phase2_handler_globals =
     map (\<lambda>n. (n, PyStr n)) [''__name__'', ''__doc__'', ''__package__'', ''__file__'', ''__cached__'']
     @ map (\<lambda>n. (n, PyModule n))
         [''__loader__'', ''__spec__'', ''__builtins__'',
          ''logging'', ''os'', ''concurrent'', ''praw'', ''pytimeparse'', ''racb_db'',
          ''reddit_instantiator'', ''repost_detector'', ''phase1_handler'']
     @ map (\<lambda>n. (n, PyFunction n))
         [''filter_comments_from_db'', ''run_filters'', ''get_full_comment_from_reddit'',
          ''check_comment_availability'', ''process_comment_entry'']"

text \<open>The names of Python's \<^verbatim>\<open>builtins\<close> module.\<close>

definition python_builtins :: namespace where
  "python_builtins = map (\<lambda>n. (n, PyBuiltin n))
     [''ArithmeticError'', ''AssertionError'', ''AttributeError'', ''BaseException'',
      ''BaseExceptionGroup'', ''BlockingIOError'', ''BrokenPipeError'', ''BufferError'',
      ''BytesWarning'', ''ChildProcessError'', ''ConnectionAbortedError'', ''ConnectionError'',
      ''ConnectionRefusedError'', ''ConnectionResetError'', ''DeprecationWarning'', ''EOFError'',
      ''Ellipsis'', ''EncodingWarning'', ''EnvironmentError'', ''Exception'', ''ExceptionGroup'',
      ''False'', ''FileExistsError'', ''FileNotFoundError'', ''FloatingPointError'',
      ''FutureWarning'', ''GeneratorExit'', ''IOError'', ''ImportError'', ''ImportWarning'',
      ''IndentationError'', ''IndexError'', ''InterruptedError'', ''IsADirectoryError'',
      ''KeyError'', ''KeyboardInterrupt'', ''LookupError'', ''MemoryError'',
      ''ModuleNotFoundError'', ''NameError'', ''None'', ''NotADirectoryError'', ''NotImplemented'',
      ''NotImplementedError'', ''OSError'', ''OverflowError'', ''PendingDeprecationWarning'',
      ''PermissionError'', ''ProcessLookupError'', ''RecursionError'', ''ReferenceError'',
      ''ResourceWarning'', ''RuntimeError'', ''RuntimeWarning'', ''StopAsyncIteration'',
      ''StopIteration'', ''SyntaxError'', ''SyntaxWarning'', ''SystemError'', ''SystemExit'',
      ''TabError'', ''TimeoutError'', ''True'', ''TypeError'', ''UnboundLocalError'',
      ''UnicodeDecodeError'', ''UnicodeEncodeError'', ''UnicodeError'', ''UnicodeTranslateError'',
      ''UnicodeWarning'', ''UserWarning'', ''ValueError'', ''Warning'', ''ZeroDivisionError'',
      ''__build_class__'', ''__debug__'', ''__doc__'', ''__import__'', ''__loader__'', ''__name__'',
      ''__package__'', ''__spec__'', ''abs'', ''aiter'', ''all'', ''anext'', ''any'', ''ascii'',
      ''bin'', ''bool'', ''breakpoint'', ''bytearray'', ''bytes'', ''callable'', ''chr'',
      ''classmethod'', ''compile'', ''complex'', ''copyright'', ''credits'', ''delattr'', ''dict'',
      ''dir'', ''divmod'', ''enumerate'', ''eval'', ''exec'', ''exit'', ''filter'', ''float'',
      ''format'', ''frozenset'', ''getattr'', ''globals'', ''hasattr'', ''hash'', ''help'', ''hex'',
      ''id'', ''input'', ''int'', ''isinstance'', ''issubclass'', ''iter'', ''len'', ''license'',
      ''list'', ''locals'', ''map'', ''max'', ''memoryview'', ''min'', ''next'', ''object'', ''oct'',
      ''open'', ''ord'', ''pow'', ''print'', ''property'', ''quit'', ''range'', ''repr'',
      ''reversed'', ''round'', ''set'', ''setattr'', ''slice'', ''sorted'', ''staticmethod'',
      ''str'', ''sum'', ''super'', ''tuple'', ''type'', ''vars'', ''zip'']"

subsection \<open>\<^verbatim>\<open>run_filters\<close>\<close>

text \<open>
  The body of the local class \<^verbatim>\<open>Result\<close> of \<^verbatim>\<open>run_filters\<close>, and the namespace it
  starts from. Its fourth line reads the name \<^verbatim>\<open>target_subreddit\<close>.
\<close>

definition Result_body :: "class_stmt list" where
  "Result_body =
     [AssignConst ''passes_filter'' (PyBool False),
      AssignConst ''reason'' PyNone,
      AssignConst ''comment'' PyNone,
      AssignName ''target_subreddit'' ''target_subreddit'',
      AssignConst ''post_with_same_content'' PyNone]"

definition Result_class :: "py_error + namespace" where
  "Result_class =
     exec_class_body phase2_handler_globals python_builtins Result_body
       [(''__qualname__'', PyStr ''run_filters.<locals>.Result''),
        (''__module__'', PyStr ''phase2_handler'')]"

record filter_result =
  passes_filter :: bool
  reason :: "string option"
  result_comment :: "comment option"
  target_subreddit :: "string option"
  post_with_same_content :: "submission option"

text \<open>
  \<^verbatim>\<open>Result()\<close>: a new instance reads its attributes from the class. The comment
  attribute holds the lazily fetched comment; it is \<open>None\<close> here until the
  comment's data could be fetched.
\<close>

definition new_filter_result :: "namespace \<Rightarrow> filter_result" where
  "new_filter_result class_ns =
     \<lparr>passes_filter = (map_of class_ns ''passes_filter'' = Some (PyBool True)),
      reason = (case map_of class_ns ''reason'' of Some (PyStr r) \<Rightarrow> Some r | _ \<Rightarrow> None),
      result_comment = None,
      target_subreddit =
        (case map_of class_ns ''target_subreddit'' of Some (PyStr t) \<Rightarrow> Some t | _ \<Rightarrow> None),
      post_with_same_content = None\<rparr>"

definition get_full_comment_from_reddit :: "string \<Rightarrow> string" where
  "get_full_comment_from_reddit permalink_without_prefix =
     ''https://www.reddit.com'' @ permalink_without_prefix"

text \<open>
  \<^verbatim>\<open>check_comment_availability\<close> reads \<^verbatim>\<open>comment.score\<close>, which makes the client
  fetch the comment: \<open>Inr True\<close> when that succeeds, \<open>Inr False\<close> on a
  \<^verbatim>\<open>ClientException\<close>, any other exception raised again.
\<close>

definition check_comment_availability :: "fetch_exception + comment \<Rightarrow> py_error + bool" where
  "check_comment_availability fetched =
     (case fetched of
        Inr c \<Rightarrow> Inr True
      | Inl e \<Rightarrow> if e = ClientException then Inr False else Inl (FetchFailure e))"

text \<open>Lines 38 to 71 of \<^verbatim>\<open>run_filters\<close>, from \<^verbatim>\<open>result = Result()\<close> on.\<close>

definition run_filters_from ::
  "world \<Rightarrow> comment_entry \<Rightarrow> filter_result \<Rightarrow> event list \<times> (py_error + filter_result)" where
  "run_filters_from w comment_entry result0 =
     (let url = get_full_comment_from_reddit (entry_permalink comment_entry);
          fetched = reddit_comment w url;
          result = result0\<lparr>result_comment := (case fetched of Inl e \<Rightarrow> None | Inr c \<Rightarrow> Some c)\<rparr>
      in case check_comment_availability fetched of
           Inl err \<Rightarrow> ([FetchComment url], Inl err)
         | Inr available \<Rightarrow>
             if \<not> available then
               ([FetchComment url], Inr (result\<lparr>reason := Some ''COMMENT_UNAVAILABLE''\<rparr>))
             else
               (case fetched of
                  Inl e \<Rightarrow> ([FetchComment url], Inl (FetchFailure e))
                | Inr c \<Rightarrow>
                    (case COMMENT_SCORE_THRESHOLD w of
                       None \<Rightarrow> ([FetchComment url], Inl TypeError)
                     | Some comment_score_threshold \<Rightarrow>
                         if score c < comment_score_threshold then
                           ([FetchComment url], Inr (result\<lparr>reason := Some ''COMMENT_SCORE_TOO_LOW''\<rparr>))
                         else
                           (case check_pattern c of
                              None \<Rightarrow>
                                ([FetchComment url],
                                 Inr (result\<lparr>target_subreddit := None,
                                             reason := Some ''TARGET_SUBREDDIT_NOT_FOUND''\<rparr>))
                            | Some t \<Rightarrow>
                                (case get_posts_with_same_content w c t of
                                   (tr, Inl err) \<Rightarrow> (FetchComment url # tr, Inl err)
                                 | (tr, Inr gpwsc_result) \<Rightarrow>
                                     if posts_found gpwsc_result then
                                       (case posts gpwsc_result of
                                          [] \<Rightarrow> (FetchComment url # tr, Inl IndexError)
                                        | p # _ \<Rightarrow>
                                            (FetchComment url # tr,
                                             Inr (result\<lparr>target_subreddit := Some t,
                                                         reason := Some ''POST_WITH_SAME_CONTENT_FOUND'',
                                                         post_with_same_content := Some p\<rparr>)))
                                     else if unable_to_search gpwsc_result then
                                       (FetchComment url # tr,
                                        Inr (result\<lparr>target_subreddit := Some t,
                                                    reason :=
                                                      Some (''UNABLE_TO_SEARCH_TARGET_SUBREDDIT_BECAUSE__''
                                                            @ (case unable_to_search_reason gpwsc_result of
                                                                 None \<Rightarrow> ''None''
                                                               | Some r \<Rightarrow> r))\<rparr>))
                                     else
                                       (FetchComment url # tr,
                                        Inr (result\<lparr>target_subreddit := Some t,
                                                    passes_filter := True\<rparr>)))))))"

definition run_filters :: "world \<Rightarrow> comment_entry \<Rightarrow> event list \<times> (py_error + filter_result)" where
  "run_filters w comment_entry =
     (case Result_class of
        Inl err \<Rightarrow> ([], Inl err)
      | Inr class_ns \<Rightarrow> run_filters_from w comment_entry (new_filter_result class_ns))"

subsection \<open>\<^verbatim>\<open>process_comment_entry\<close>\<close>

text \<open>
  \<^verbatim>\<open>result != False\<close>: the class \<^verbatim>\<open>Result\<close> defines neither \<^verbatim>\<open>__eq__\<close> nor
  \<^verbatim>\<open>__ne__\<close>, so the comparison is by identity, and an instance of \<^verbatim>\<open>Result\<close>
  is never one of the values of \<open>py_value\<close>.
\<close>

fun instance_ne :: "filter_result \<Rightarrow> py_value \<Rightarrow> bool" where
  "instance_ne result v = True"

text \<open>Lines 92 to 96 of \<^verbatim>\<open>process_comment_entry\<close>, once \<^verbatim>\<open>run_filters\<close> has returned.\<close>

definition record_verdict :: "filter_result \<Rightarrow> comment_entry \<Rightarrow> event list" where
  "record_verdict result comment_entry =
     (let passed = instance_ne result (PyBool False)
      in if passed then [SetCommentChecked comment_entry] else [DeleteComment comment_entry])"

definition process_comment_entry :: "world \<Rightarrow> comment_entry \<Rightarrow> event list \<times> py_error option" where
  "process_comment_entry w comment_entry =
     (case run_filters w comment_entry of
        (tr, Inl err) \<Rightarrow> (tr, Some err)
      | (tr, Inr result) \<Rightarrow> (tr @ record_verdict result comment_entry, None))"

section \<open>The stream consumer\<close>

text \<open>
  The exceptions the loop of \<^verbatim>\<open>main\<close> tells apart. A \<^verbatim>\<open>prawcore\<close>
  \<^verbatim>\<open>RequestException\<close> carries \<^verbatim>\<open>original_exception\<close>: \<open>None\<close> when that is
  missing, else the kinds of its \<^verbatim>\<open>args\<close>. \<open>NonException\<close> is a
  \<^verbatim>\<open>BaseException\<close> outside \<^verbatim>\<open>Exception\<close>, such as \<^verbatim>\<open>KeyboardInterrupt\<close>.
\<close>

datatype original_arg = MaxRetryError | ReadTimeoutError | OtherOriginalArg

datatype stream_exception =
    ServerError
  | Forbidden
  | ConnectTimeout
  | RequestException "original_arg list option"
  | OtherException string
  | NonException string

fun is_Exception :: "stream_exception \<Rightarrow> bool" where
  "is_Exception (NonException n) = False"
| "is_Exception e = True"

text \<open>
  What the comment stream does when asked for the next comment: it yields a comment,
  whose handling (\<^verbatim>\<open>listener.handle_incoming_comment\<close>, then
  \<^verbatim>\<open>schedule.run_pending\<close>) returns or raises; or the stream itself raises; or it
  ends. A script lists what happens, request after request; the stream is unbounded,
  so when the script is used up the loop is waiting for the next comment.
\<close>

datatype stream_item =
    Yields "stream_exception option"
  | StreamRaises stream_exception
  | StreamEnds

datatype action =
    ListenToStream
  | Handled
  | LogException stream_exception
  | LogNetworkError stream_exception
  | Sleep nat

datatype listen_result = Waiting | Returned | Raised stream_exception

text \<open>The \<^verbatim>\<open>for\<close> loop of \<^verbatim>\<open>listen_to_comment_stream\<close>; the flag is \<^verbatim>\<open>environment.DEBUG\<close>.\<close>

fun stream_for_loop ::
  "bool \<Rightarrow> stream_item list \<Rightarrow> action list \<times> listen_result \<times> stream_item list" where
  "stream_for_loop debug [] = ([], Waiting, [])"
| "stream_for_loop debug (StreamEnds # rest) = ([], Returned, rest)"
| "stream_for_loop debug (StreamRaises e # rest) = ([], Raised e, rest)"
| "stream_for_loop debug (Yields None # rest) =
     (case stream_for_loop debug rest of (acts, r, rest') \<Rightarrow> (Handled # acts, r, rest'))"
| "stream_for_loop debug (Yields (Some e) # rest) =
     (if is_Exception e then
        (if debug then ([LogException e], Raised e, rest)
         else (case stream_for_loop debug rest of
                 (acts, r, rest') \<Rightarrow> (LogException e # acts, r, rest')))
      else ([], Raised e, rest))"

definition listen_to_comment_stream ::
  "bool \<Rightarrow> stream_item list \<Rightarrow> action list \<times> listen_result \<times> stream_item list" where
  "listen_to_comment_stream debug script =
     (case stream_for_loop debug script of (acts, r, rest) \<Rightarrow> (ListenToStream # acts, r, rest))"

definition is_max_retry_or_read_timeout_error :: "original_arg list option \<Rightarrow> bool" where
  "is_max_retry_or_read_timeout_error original_exception =
     (case original_exception of
        None \<Rightarrow> False
      | Some args \<Rightarrow>
          (case args of
             [] \<Rightarrow> False
           | a # _ \<Rightarrow> a = MaxRetryError \<or> a = ReadTimeoutError))"

datatype main_result = Running | Terminated stream_exception

text \<open>
  The two \<^verbatim>\<open>except\<close> clauses of the loop of \<^verbatim>\<open>main\<close>: \<open>None\<close> when the loop goes
  on, after the actions given; else the exception that leaves \<^verbatim>\<open>main\<close>.
\<close>

definition main_except :: "bool \<Rightarrow> stream_exception \<Rightarrow> action list \<times> stream_exception option" where
  "main_except debug e =
     (if e = ServerError \<or> e = Forbidden \<or> e = ConnectTimeout then
        (if debug then ([], Some e) else ([LogNetworkError e, Sleep 30], None))
      else
        (case e of
           RequestException original_exception \<Rightarrow>
             if is_max_retry_or_read_timeout_error original_exception
             then ([LogNetworkError e, Sleep 30], None)
             else ([], Some e)
         | _ \<Rightarrow> ([], Some e)))"

function main_loop :: "bool \<Rightarrow> stream_item list \<Rightarrow> action list \<times> main_result" where
  "main_loop debug script =
     (case listen_to_comment_stream debug script of
        (acts, Waiting, rest) \<Rightarrow> (acts, Running)
      | (acts, Returned, rest) \<Rightarrow>
          (case main_loop debug rest of (acts', r) \<Rightarrow> (acts @ acts', r))
      | (acts, Raised e, rest) \<Rightarrow>
          (case main_except debug e of
             (acts1, Some e') \<Rightarrow> (acts @ acts1, Terminated e')
           | (acts1, None) \<Rightarrow>
               (case main_loop debug rest of (acts', r) \<Rightarrow> (acts @ acts1 @ acts', r))))"
  by pat_completeness auto
termination
proof (relation "measure (\<lambda>(debug, script). length script)")
  have shorter: "stream_for_loop d s = (acts, r, rest) \<Longrightarrow> r \<noteq> Waiting \<Longrightarrow> length rest < length s"
    for d s acts r rest
  proof (induction d s arbitrary: acts rule: stream_for_loop.induct)
    case (1 debug)
    then show ?case by simp
  next
    case (2 debug rest')
    then show ?case by auto
  next
    case (3 debug e rest')
    then show ?case by auto
  next
    case (4 debug rest')
    then show ?case by (fastforce split: prod.splits)
  next
    case (5 debug e rest')
    then show ?case by (fastforce split: prod.splits if_splits)
  qed
  show "wf (measure (\<lambda>(debug, script). length script))"
    by simp
  show "((debug, rest), (debug, script)) \<in> measure (\<lambda>(debug, script). length script)"
    if "(acts, x) = listen_to_comment_stream debug script" and "(r, rest) = x" and "r = Returned"
    for debug script acts x r rest
    using that shorter [of debug script _ Returned rest]
    by (auto simp: listen_to_comment_stream_def split: prod.splits)
  show "((debug, rest), (debug, script)) \<in> measure (\<lambda>(debug, script). length script)"
    if "(acts, x) = listen_to_comment_stream debug script" and "(r, rest) = x" and "r = Raised e"
    for debug script acts x r rest e
    using that shorter [of debug script _ "Raised e" rest]
    by (auto simp: listen_to_comment_stream_def split: prod.splits)
qed

declare main_loop.simps [simp del]

section \<open>Auxiliary definitions\<close>

text \<open>
  The end of the input as \<^verbatim>\<open>$\<close> sees it, the name that a run of name characters up
  to that end spells, and the same after the prefix \<^verbatim>\<open>r/\<close>.
\<close>

definition at_end :: "string \<Rightarrow> bool" where
  "at_end r = (r = [] \<or> r = [LF])"

definition name_at :: "string \<Rightarrow> string option" where
  "name_at s = (if takeWhile subreddit_name_char s \<noteq> [] \<and> at_end (dropWhile subreddit_name_char s)
     then Some (takeWhile subreddit_name_char s) else None)"

definition after_prefix :: "string \<Rightarrow> string option" where
  "after_prefix s =
     (case s of
        x # y # rest \<Rightarrow> if x = CHR ''r'' \<and> y = CHR ''/'' then name_at rest else None
      | _ \<Rightarrow> None)"

text \<open>Concrete comments, submissions and worlds on which the results below are run.\<close>

definition example_submission :: submission where
  "example_submission =
     \<lparr>submission_title = str_of ''A cat'', submission_url = ''https://i.example/cat.png'',
      submission_permalink = ''/r/pics/comments/abc/a_cat/''\<rparr>"

definition example_comment :: comment where
  "example_comment =
     \<lparr>comment_id = ''c1'', body = ''r/cats'', permalink = ''/r/pics/comments/abc/a_cat/c1/'',
      parent_id = ''t3_abc'', link_id = ''t3_abc'', distinguished = None,
      subreddit_display_name = str_of ''Pics'', comment_submission = example_submission, score = 5\<rparr>"

text \<open>The side effects among the calls of a trace.\<close>

definition side_effects :: "event list \<Rightarrow> event list" where
  "side_effects tr = filter is_side_effect tr"

definition not_found_payload :: string where
  \<open>not_found_payload = ''{"message": "Not Found", "error": 404}''\<close>

definition banned_payload :: string where
  \<open>banned_payload = ''{"reason": "banned", "message": "Not Found", "error": 404}''\<close>

definition example_json_loads :: "string \<Rightarrow> json option" where
  "example_json_loads text =
     (if text = banned_payload then
        Some (JObject [(''reason'', JString ''banned''), (''message'', JString ''Not Found''),
                       (''error'', JNumber 404)])
      else if text = not_found_payload then
        Some (JObject [(''message'', JString ''Not Found''), (''error'', JNumber 404)])
      else None)"

definition search_error :: "string \<Rightarrow> string \<Rightarrow> search_exception" where
  "search_error message text =
     \<lparr>exc_args = [StrArg message], exc_response = Some \<lparr>response_text = text\<rparr>\<rparr>"

text \<open>
  Unicode tables for the examples. They are those of CPython 3.11 on the code points
  below \<open>0x180\<close> for the word characters, on every code point for the match of an
  ASCII character of a pattern under \<^verbatim>\<open>re.IGNORECASE\<close>, and on the strings of
  code points below \<open>0x100\<close> for \<^verbatim>\<open>str.lower\<close>. The theorems below are about
  every world, whatever its tables; these tables serve the examples only.
\<close>

definition in_ranges :: "(nat \<times> nat) list \<Rightarrow> nat \<Rightarrow> bool" where
  "in_ranges ranges n = list_ex (\<lambda>(lo, hi). lo \<le> n \<and> n \<le> hi) ranges"

definition example_lower :: "codepoint \<Rightarrow> codepoint" where
  "example_lower n =
     (if in_ranges [(0x41, 0x5A), (0xC0, 0xD6), (0xD8, 0xDE)] n then n + 32 else n)"

definition ascii_fold :: "codepoint \<Rightarrow> codepoint" where
  "ascii_fold n = (if in_ranges [(0x41, 0x5A)] n then n + 32 else n)"

definition example_tables :: unicode_tables where
  "example_tables =
     \<lparr>uni_is_word =
        in_ranges [(0x30, 0x39), (0x41, 0x5A), (0x5F, 0x5F), (0x61, 0x7A), (0xAA, 0xAA),
                   (0xB2, 0xB3), (0xB5, 0xB5), (0xB9, 0xBA), (0xBC, 0xBE), (0xC0, 0xD6),
                   (0xD8, 0xF6), (0xF8, 0x17F)],
      uni_ignorecase_match =
        (\<lambda>p x. ascii_fold x = ascii_fold p
                \<or> ascii_fold p = 0x69 \<and> (x = 0x130 \<or> x = 0x131)
                \<or> ascii_fold p = 0x6B \<and> x = 0x212A
                \<or> ascii_fold p = 0x73 \<and> x = 0x17F),
      uni_lower = map example_lower\<rparr>"

text \<open>
  A world whose search gives the outcome \<open>found\<close> whatever is searched, and whose
  repost detector returns \<open>prior\<close>.
\<close>

definition example_world ::
  "(search_exception + submission list) \<Rightarrow> submission list \<Rightarrow> world" where
  "example_world found prior =
     \<lparr>reddit_search = (\<lambda>subreddit query. found),
      get_reposts_in_sub = (\<lambda>c subreddit. prior),
      json_loads = example_json_loads,
      SUB_BLACKLIST = [str_of ''askreddit''],
      reddit_comment = (\<lambda>url. Inr example_comment),
      COMMENT_SCORE_THRESHOLD = Some 1,
      unicode = example_tables\<rparr>"

text \<open>
  The faults that claim C9 lists, the stream items that the production loop outlives,
  and the actions each of them leads to.
\<close>

fun listed_transient_fault :: "stream_exception \<Rightarrow> bool" where
  "listed_transient_fault ServerError = True"
| "listed_transient_fault Forbidden = True"
| "listed_transient_fault ConnectTimeout = True"
| "listed_transient_fault (RequestException original_exception) =
     is_max_retry_or_read_timeout_error original_exception"
| "listed_transient_fault (OtherException n) = False"
| "listed_transient_fault (NonException n) = False"

fun survivable :: "stream_item \<Rightarrow> bool" where
  "survivable (Yields None) = True"
| "survivable (Yields (Some e)) = is_Exception e"
| "survivable (StreamRaises e) = listed_transient_fault e"
| "survivable StreamEnds = True"

fun item_actions :: "stream_item \<Rightarrow> action list" where
  "item_actions (Yields None) = [Handled]"
| "item_actions (Yields (Some e)) = [LogException e]"
| "item_actions (StreamRaises e) = [LogNetworkError e, Sleep 30, ListenToStream]"
| "item_actions StreamEnds = [ListenToStream]"

definition example_entry :: comment_entry where
  "example_entry = \<lparr>entry_comment_id = ''c1'', entry_permalink = ''/r/pics/comments/abc/a_cat/c1/''\<rparr>"

text \<open>A world in which the comment of every entry has been deleted.\<close>

definition deleted_comment_world :: world where
  "deleted_comment_world = (example_world (Inr []) [])\<lparr>reddit_comment := (\<lambda>url. Inl ClientException)\<rparr>"

section \<open>The pattern detector: results\<close>

lemma first_some_append:
  "first_some f (xs @ ys) = (case first_some f xs of Some y \<Rightarrow> Some y | None \<Rightarrow> first_some f ys)"
  by (induction xs) (auto split: option.splits)

lemma first_some_map: "first_some f (map g xs) = first_some (\<lambda>x. f (g x)) xs"
  by (induction xs) (auto split: option.splits)

lemma re_search_from_Bol: "re_search_from [Bol # items] (Some p) s = None"
  by (induction s arbitrary: p) auto

lemma re_search_Bol:
  "re_search_from [Bol # items] None s = re_match items None s"
  by (cases s) (auto simp: re_search_from_Bol split: option.splits)

lemma plus_then_Eol_aux:
  assumes "\<not> C LF"
  shows "first_some (\<lambda>(t, r). if at_end r then Some [Some (pre @ t)] else None) (plus_splits C s)
       = (if takeWhile C s \<noteq> [] \<and> at_end (dropWhile C s)
          then Some [Some (pre @ takeWhile C s)] else None)"
proof (induction s arbitrary: pre)
  case Nil
  show ?case by simp
next
  case (Cons x xs)
  show ?case
  proof (cases "C x")
    case False
    then show ?thesis by simp
  next
    case True
    have step: "first_some (\<lambda>(t, r). if at_end r then Some [Some (pre @ t)] else None)
             (map (\<lambda>(t, r). (x # t, r)) (plus_splits C xs))
        = first_some (\<lambda>(t, r). if at_end r then Some [Some ((pre @ [x]) @ t)] else None) (plus_splits C xs)"
      by (simp add: first_some_map case_prod_unfold cong: if_cong)
    show ?thesis
    proof (cases "takeWhile C xs = []")
      case e: True
      then have "dropWhile C xs = xs"
        by (cases xs) (auto split: if_splits)
      with True e show ?thesis
        unfolding plus_splits.simps
        by (simp add: first_some_append step Cons.IH)
    next
      case ne: False
      then obtain y ys where xs: "xs = y # ys" and y: "C y"
        by (cases xs) (auto split: if_splits)
      with assms have "\<not> at_end xs"
        by (auto simp: at_end_def)
      with True ne show ?thesis
        unfolding plus_splits.simps
        by (simp add: first_some_append step Cons.IH)
    qed
  qed
qed

lemma re_match_Eol: "re_match [Eol] prev r = (if at_end r then Some [] else None)"
  by (simp add: at_end_def)

lemma plus_then_Eol:
  assumes "\<not> C LF"
  shows "re_match [PlusGroup C, Eol] prev s
       = (if takeWhile C s \<noteq> [] \<and> at_end (dropWhile C s) then Some [Some (takeWhile C s)] else None)"
proof -
  have "re_match [PlusGroup C, Eol] prev s
      = first_some (\<lambda>(t, r). if at_end r then Some [Some ([] @ t)] else None) (plus_splits C s)"
  proof -
    have "(\<lambda>(t, r). map_option (\<lambda>g. Some t # g) (re_match [Eol] (Some (last t)) r))
        = (\<lambda>(t, r). if at_end r then Some [Some ([] @ t)] else None)"
      by (auto simp: fun_eq_iff at_end_def)
    then show ?thesis
      by (simp only: re_match.simps(6))
  qed
  with plus_then_Eol_aux [where C = C and pre = "[]" and s = s] assms show ?thesis
    by simp
qed

lemma name_char_LF: "\<not> subreddit_name_char LF"
  by (simp add: subreddit_name_char_def LF_def in_range_def)

lemma name_char_slash: "\<not> subreddit_name_char (CHR ''/'')"
  by (simp add: subreddit_name_char_def in_range_def)

lemma name_at_iff:
  "name_at s = Some name \<longleftrightarrow>
     name \<noteq> [] \<and> list_all subreddit_name_char name \<and> (s = name \<or> s = name @ [LF])"
proof
  assume "name_at s = Some name"
  then have t: "takeWhile subreddit_name_char s = name" and ne: "name \<noteq> []"
    and e: "at_end (dropWhile subreddit_name_char s)"
    by (auto simp: name_at_def split: if_splits)
  from e have "dropWhile subreddit_name_char s = [] \<or> dropWhile subreddit_name_char s = [LF]"
    by (simp add: at_end_def)
  with t have "s = name \<or> s = name @ [LF]"
    by (metis takeWhile_dropWhile_id append_Nil2)
  moreover from t have "list_all subreddit_name_char name"
    by (auto simp: list_all_iff dest: set_takeWhileD)
  ultimately show "name \<noteq> [] \<and> list_all subreddit_name_char name \<and> (s = name \<or> s = name @ [LF])"
    using ne by simp
next
  assume a: "name \<noteq> [] \<and> list_all subreddit_name_char name \<and> (s = name \<or> s = name @ [LF])"
  then have all: "\<forall>c\<in>set name. subreddit_name_char c" by (simp add: list_all_iff)
  from a consider "s = name" | "s = name @ [LF]" by blast
  then show "name_at s = Some name"
  proof cases
    case 1
    with all have "takeWhile subreddit_name_char s = name" "dropWhile subreddit_name_char s = []"
      by simp_all
    with a show ?thesis by (simp add: name_at_def at_end_def)
  next
    case 2
    with all have "takeWhile subreddit_name_char s = name" "dropWhile subreddit_name_char s = [LF]"
      by (simp_all add: takeWhile_tail name_char_LF dropWhile_append)
    with a show ?thesis by (simp add: name_at_def at_end_def)
  qed
qed

lemma re_match_name:
  "re_match [PlusGroup subreddit_name_char, Eol] prev s = map_option (\<lambda>n. [Some n]) (name_at s)"
  using plus_then_Eol [where C = subreddit_name_char and prev = prev and s = s] name_char_LF
  by (simp add: name_at_def)

lemma re_match_after_prefix:
  "re_match [Lit (CHR ''r''), Lit (CHR ''/''), PlusGroup subreddit_name_char, Eol] prev s
     = map_option (\<lambda>n. [Some n]) (after_prefix s)"
  by (simp add: re_match_name after_prefix_def
        del: re_match.simps(6) split: list.splits)

lemma after_prefix_slash: "after_prefix (CHR ''/'' # s) = None"
  by (simp add: after_prefix_def split: list.splits)

lemma check_pattern_eq:
  "check_pattern c =
     (case body c of
        [] \<Rightarrow> None
      | x # rest \<Rightarrow> if x = CHR ''/'' then after_prefix rest else after_prefix (x # rest))"
proof -
  have start: "check_pattern c =
      (case re_match [OptGroup (CHR ''/''), Lit (CHR ''r''), Lit (CHR ''/''),
              PlusGroup subreddit_name_char, Eol] None (body c) of
         None \<Rightarrow> None | Some groups \<Rightarrow> groups ! 1)"
    by (simp add: check_pattern_def re_search_def subreddit_regex_def re_search_Bol
          del: re_match.simps)
  show ?thesis
  proof (cases "body c")
    case Nil
    then show ?thesis
      unfolding start by (simp add: after_prefix_def)
  next
    case (Cons x rest)
    show ?thesis
    proof (cases "x = CHR ''/''")
      case True
      with Cons show ?thesis
        unfolding start re_match.simps(5) re_match_after_prefix
        by (cases "after_prefix rest") (simp_all add: after_prefix_slash)
    next
      case False
      with Cons show ?thesis
        unfolding start re_match.simps(5) re_match_after_prefix
        by (cases "after_prefix (x # rest)") simp_all
    qed
  qed
qed

lemma after_prefix_iff: "after_prefix s = Some name \<longleftrightarrow> (\<exists>t. s = ''r/'' @ t \<and> name_at t = Some name)"
proof (cases s)
  case Nil
  then show ?thesis by (simp add: after_prefix_def)
next
  case (Cons x s')
  show ?thesis
  proof (cases s')
    case Nil
    with Cons show ?thesis by (simp add: after_prefix_def)
  next
    case (Cons y rest)
    with \<open>s = x # s'\<close> show ?thesis by (auto simp: after_prefix_def)
  qed
qed

lemma check_pattern_name_at:
  "check_pattern c = Some name \<longleftrightarrow>
     (\<exists>t. (body c = ''r/'' @ t \<or> body c = ''/r/'' @ t) \<and> name_at t = Some name)"
proof (cases "body c")
  case Nil
  then show ?thesis by (simp add: check_pattern_eq)
next
  case (Cons x rest)
  show ?thesis
  proof (cases "x = CHR ''/''")
    case True
    with Cons show ?thesis by (simp add: check_pattern_eq after_prefix_iff)
  next
    case False
    with Cons have "check_pattern c = after_prefix (body c)"
      by (simp add: check_pattern_eq)
    moreover from Cons False have "body c \<noteq> ''/r/'' @ t" for t
      by simp
    ultimately show ?thesis
      by (simp add: after_prefix_iff)
  qed
qed

lemma shape_exchange:
  "(\<exists>t. (b = P @ t \<or> b = Q @ t) \<and> (t = n \<or> t = n @ e))
     \<longleftrightarrow> (\<exists>s. (s = P @ n \<or> s = Q @ n) \<and> (b = s \<or> b = s @ e))"
  by auto

text \<open>
  Claim C1, as the code has it. \<^verbatim>\<open>check_pattern\<close> searches the body as it is, without
  trimming it. It returns the name exactly when the body is \<^verbatim>\<open>r/<name>\<close> or
  \<^verbatim>\<open>/r/<name>\<close>, the name one or more letters, digits, hyphens or underscores,
  with nothing before it and at most one line feed after it (Python's \<^verbatim>\<open>$\<close> also
  matches just before a final line feed). For every other body, a body with leading
  whitespace or a trailing space among them, it returns no match.
\<close>

theorem check_pattern_characterisation:
  "check_pattern c = Some name \<longleftrightarrow>
     (\<exists>s. is_subreddit_reference s name \<and> (body c = s \<or> body c = s @ [LF]))"
proof -
  have "check_pattern c = Some name \<longleftrightarrow>
      name \<noteq> [] \<and> list_all subreddit_name_char name \<and>
      (\<exists>t. (body c = ''r/'' @ t \<or> body c = ''/r/'' @ t) \<and> (t = name \<or> t = name @ [LF]))"
    unfolding check_pattern_name_at name_at_iff by blast
  also have "\<dots> \<longleftrightarrow> name \<noteq> [] \<and> list_all subreddit_name_char name \<and>
      (\<exists>s. (s = ''r/'' @ name \<or> s = ''/r/'' @ name) \<and> (body c = s \<or> body c = s @ [LF]))"
    unfolding shape_exchange ..
  also have "\<dots> \<longleftrightarrow> (\<exists>s. is_subreddit_reference s name \<and> (body c = s \<or> body c = s @ [LF]))"
    unfolding is_subreddit_reference_def by blast
  finally show ?thesis .
qed

theorem check_pattern_characterisation_witness:
  "check_pattern (example_comment\<lparr>body := ''/r/cats'' @ [LF]\<rparr>) = Some ''cats''"
proof -
  have "is_subreddit_reference ''/r/cats'' ''cats''"
    by (simp add: is_subreddit_reference_def subreddit_name_char_def in_range_def)
  then have "\<exists>s. is_subreddit_reference s ''cats''
      \<and> (body (example_comment\<lparr>body := ''/r/cats'' @ [LF]\<rparr>) = s
         \<or> body (example_comment\<lparr>body := ''/r/cats'' @ [LF]\<rparr>) = s @ [LF])"
    by (intro exI [of _ "''/r/cats''"]) simp
  then show ?thesis
    using check_pattern_characterisation [of "example_comment\<lparr>body := ''/r/cats'' @ [LF]\<rparr>" "''cats''"]
    by blast
qed

text \<open>
  Claim C1 as stated fails on both readings of it. The body \<^verbatim>\<open>r/cats\<close> followed by a
  line feed is not of the exact shape, yet the name is returned; the body
  \<^verbatim>\<open> r/cats\<close> with a leading space is of the shape once trimmed, yet there is no match.
\<close>

theorem check_pattern_counterexample:
  "check_pattern (example_comment\<lparr>body := ''r/cats'' @ [LF]\<rparr>) = Some ''cats''
   \<and> \<not> is_subreddit_reference (''r/cats'' @ [LF]) ''cats''
   \<and> check_pattern (example_comment\<lparr>body := '' r/cats''\<rparr>) = None
   \<and> is_subreddit_reference (trimmed '' r/cats'') ''cats''"
  by (simp add: check_pattern_eq after_prefix_def name_at_def at_end_def LF_def
        is_subreddit_reference_def subreddit_name_char_def in_range_def trimmed_def is_space_def)

section \<open>Phase 1: results\<close>

lemma gpwsc_no_side_effect:
  "get_posts_with_same_content w c t = (tr, r) \<Longrightarrow> filter is_side_effect tr = []"
  by (auto simp: get_posts_with_same_content_def Let_def split: sum.splits if_splits)

lemma gpwsc_unable_not_found:
  "get_posts_with_same_content w c t = (tr, Inr r) \<Longrightarrow> unable_to_search r \<Longrightarrow> \<not> posts_found r"
  by (auto simp: get_posts_with_same_content_def handle_search_exception_def new_search_result_def
        Let_def split: sum.splits if_splits list.splits option.splits bool.splits)

lemma handle_after_search:
  assumes "reaches_search w c t"
  shows "handle_incoming_comment w c =
     (case get_posts_with_same_content w c t of
        (tr, Inl err) \<Rightarrow> (tr, Some err)
      | (tr, Inr result_obj) \<Rightarrow>
          if posts_found result_obj then
            (case posts result_obj of
               [] \<Rightarrow> (tr, Some IndexError)
             | p # _ \<Rightarrow> (tr @ reply_to_same_content_post_comment c t p, None))
          else if unable_to_search result_obj
                  \<and> unable_to_search_reason result_obj = Some ''SUBREDDIT_DOES_NOT_EXIST''
          then (tr @ reply_to_nonexistent_target_subreddit_comment c t, None)
          else if \<not> is_top_level_comment c then (tr, None)
          else (tr @ [AddComment c], None))"
  using assms
  by (simp add: handle_incoming_comment_def reaches_search_def Let_def)

lemma handle_before_search:
  assumes "\<not> reaches_search w c t" and "check_pattern c = Some t"
  shows "handle_incoming_comment w c = ([], None)
       \<or> handle_incoming_comment w c = (reply_to_source_equals_target_comment c t, None)"
  using assms
  by (auto simp: handle_incoming_comment_def reaches_search_def Let_def)

lemma handle_no_match:
  assumes "check_pattern c = None"
  shows "handle_incoming_comment w c = ([], None)"
  using assms by (simp add: handle_incoming_comment_def)

lemma handle_side_effects:
  "side_effects (fst (handle_incoming_comment w c)) = []
   \<or> side_effects (fst (handle_incoming_comment w c)) = [AddComment c] \<and> is_top_level_comment c
   \<or> (\<exists>a k t p. side_effects (fst (handle_incoming_comment w c)) = [PostReply a (comment_id c) k t p])"
proof (cases "check_pattern c")
  case None
  then show ?thesis by (simp add: handle_no_match side_effects_def)
next
  case (Some t)
  show ?thesis
  proof (cases "reaches_search w c t")
    case False
    from handle_before_search [OF False Some] show ?thesis
      by (auto simp: side_effects_def reply_to_source_equals_target_comment_def)
  next
    case True
    obtain tr r where g: "get_posts_with_same_content w c t = (tr, r)"
      by (cases "get_posts_with_same_content w c t")
    from gpwsc_no_side_effect [OF g] have tr: "filter is_side_effect tr = []" .
    show ?thesis
    proof (cases r)
      case (Inl err)
      with g tr show ?thesis
        by (simp add: handle_after_search [OF True] side_effects_def)
    next
      case (Inr result_obj)
      with g tr show ?thesis
        by (cases "posts result_obj")
           (simp_all add: handle_after_search [OF True] side_effects_def
              reply_to_same_content_post_comment_def
              reply_to_nonexistent_target_subreddit_comment_def)
    qed
  qed
qed

lemma example_title_passes:
  "\<not> title_contains_prohibited_phrases example_tables example_comment"
  by (simp add: title_contains_prohibited_phrases_def prohibited_phrases_def str_search_def
        example_comment_def example_submission_def str_of_def example_tables_def
        at_word_boundary_def str_lit_matches_def in_ranges_def ascii_fold_def)

text \<open>
  Two titles outside ASCII, in code points: the first is \<^verbatim>\<open>sub\<close> written with a
  long s (\<open>U+017F\<close>), which \<^verbatim>\<open>re.IGNORECASE\<close> matches with \<^verbatim>\<open>s\<close>; the second
  begins with \<^verbatim>\<open>Sub\<close> followed by the letter i with acute (\<open>U+00ED\<close>), a word
  character, so that no word ends after \<^verbatim>\<open>Sub\<close>.
\<close>

lemma unicode_title_examples:
  "title_contains_prohibited_phrases example_tables
     (example_comment\<lparr>comment_submission :=
        example_submission\<lparr>submission_title := [0x17F, 0x75, 0x62]\<rparr>\<rparr>)
   \<and> \<not> title_contains_prohibited_phrases example_tables
     (example_comment\<lparr>comment_submission :=
        example_submission\<lparr>submission_title := [0x53, 0x75, 0x62, 0xED] @ str_of '' esta foto''\<rparr>\<rparr>)"
  by (simp add: title_contains_prohibited_phrases_def prohibited_phrases_def str_search_def
        str_of_def example_tables_def at_word_boundary_def str_lit_matches_def in_ranges_def
        ascii_fold_def)

lemma example_reaches_search: "reaches_search (example_world found prior) example_comment ''cats''"
proof -
  have "check_pattern example_comment = Some ''cats''"
    by (simp add: example_comment_def check_pattern_eq after_prefix_def name_at_def at_end_def
          subreddit_name_char_def in_range_def)
  moreover have "\<not> is_mod_post example_comment"
    by (simp add: is_mod_post_def example_comment_def)
  moreover have "uni_lower example_tables (str_of ''cats'') = str_of ''cats''"
    and "uni_lower example_tables (subreddit_display_name example_comment) = str_of ''pics''"
    by (simp_all add: example_tables_def example_lower_def in_ranges_def str_of_def
          example_comment_def)
  ultimately show ?thesis
    using example_title_passes
    by (simp add: reaches_search_def example_world_def SUBREDDIT_NAME_LENGTH_LIMIT_def str_of_def)
qed

lemma example_top_level: "is_top_level_comment example_comment"
  by (simp add: is_top_level_comment_def example_comment_def)

lemma staging_insert_side_effect:
  "list_ex is_staging_insert tr = list_ex is_staging_insert (side_effects tr)"
  by (induction tr) (auto simp: side_effects_def elim: is_staging_insert.elims)

lemma example_reply_reaches_search:
  "reaches_search (example_world found prior) (example_comment\<lparr>parent_id := p\<rparr>) ''cats''"
  using example_reaches_search [of found prior]
  by (simp add: reaches_search_def check_pattern_def is_mod_post_def
        title_contains_prohibited_phrases_def)

lemma example_search_unable:
  "get_posts_with_same_content
     (example_world (Inl (search_error ''Redirect to /subreddits/search'' [])) [])
     example_comment ''cats''
   = ([SearchQuery ''cats'' (search_query example_comment)],
      Inr (new_search_result\<lparr>unable_to_search := True,
                             unable_to_search_reason := Some ''SUBREDDIT_DOES_NOT_EXIST''\<rparr>))"
  by (simp add: get_posts_with_same_content_def example_world_def handle_search_exception_def
        search_error_def new_search_result_def)

lemma example_search_banned:
  "get_posts_with_same_content
     (example_world (Inl (search_error ''received 404 HTTP response'' banned_payload)) [])
     example_comment ''cats''
   = ([SearchQuery ''cats'' (search_query example_comment)],
      Inr (new_search_result\<lparr>unable_to_search := True,
                             unable_to_search_reason := Some ''SUBREDDIT_IS_BANNED''\<rparr>))"
  by (simp add: get_posts_with_same_content_def example_world_def handle_search_exception_def
        search_error_def new_search_result_def example_json_loads_def banned_payload_def)

lemma example_search_keyerror:
  "get_posts_with_same_content
     (example_world (Inl (search_error ''received 404 HTTP response'' not_found_payload)) [])
     example_comment ''cats''
   = ([SearchQuery ''cats'' (search_query example_comment)], Inl (KeyError ''reason''))"
  by (simp add: get_posts_with_same_content_def example_world_def handle_search_exception_def
        search_error_def example_json_loads_def not_found_payload_def banned_payload_def
        new_search_result_def)

lemma example_search_empty:
  "get_posts_with_same_content (example_world (Inr []) []) (example_comment\<lparr>parent_id := p\<rparr>) ''cats''
   = ([SearchQuery ''cats'' (search_query example_comment), RepostLookup ''c1'' ''cats''],
      Inr new_search_result)"
  by (simp add: get_posts_with_same_content_def example_world_def search_query_def
        example_comment_def)

lemma Result_class_raises: "Result_class = Inl (NameError ''target_subreddit'')"
  by (simp add: Result_class_def Result_body_def load_name_def phase2_handler_globals_def
        python_builtins_def)

text \<open>
  Claim C3, as the code has it. When the search for an eligible comment is unable
  with the reason \<^verbatim>\<open>SUBREDDIT_DOES_NOT_EXIST\<close>, the only side effect is the reply
  from the nonexistent-target template and nothing is staged. With the reason
  \<^verbatim>\<open>SUBREDDIT_IS_BANNED\<close> no reply is posted: the comment is staged when it is
  top-level and dropped when it is not.
\<close>

theorem nonexistent_target_reply:
  assumes "reaches_search w c t"
    and "get_posts_with_same_content w c t = (tr, Inr r)"
    and "unable_to_search r"
  shows "(unable_to_search_reason r = Some ''SUBREDDIT_DOES_NOT_EXIST'' \<longrightarrow>
            handle_incoming_comment w c =
              (tr @ [PostReply SUB_DOESNT_EXIST_BOT_NAME (comment_id c) ''NONEXISTENT_SUBREDDIT'' t None],
               None))
       \<and> (unable_to_search_reason r = Some ''SUBREDDIT_IS_BANNED'' \<longrightarrow>
            handle_incoming_comment w c =
              (tr @ (if is_top_level_comment c then [AddComment c] else []), None))"
proof -
  from assms(2,3) have "\<not> posts_found r"
    by (rule gpwsc_unable_not_found)
  with assms show ?thesis
    by (simp add: handle_after_search reply_to_nonexistent_target_subreddit_comment_def)
qed

theorem nonexistent_target_reply_witness:
  "handle_incoming_comment
     (example_world (Inl (search_error ''Redirect to /subreddits/search'' [])) [])
     example_comment
   = ([SearchQuery ''cats'' (search_query example_comment),
       PostReply SUB_DOESNT_EXIST_BOT_NAME ''c1'' ''NONEXISTENT_SUBREDDIT'' ''cats'' None], None)"
  using nonexistent_target_reply [OF example_reaches_search example_search_unable]
  by (simp add: new_search_result_def example_comment_def)

text \<open>
  Claim C3 as stated fails in the banned case: the search of a banned subreddit for a
  top-level comment ends with the comment staged and no reply posted.
\<close>

theorem banned_target_counterexample:
  "handle_incoming_comment
     (example_world (Inl (search_error ''received 404 HTTP response'' banned_payload)) [])
     example_comment
   = ([SearchQuery ''cats'' (search_query example_comment), AddComment example_comment], None)"
  by (simp add: handle_after_search [OF example_reaches_search] example_search_banned
        new_search_result_def example_top_level)

text \<open>
  Claim C7. Whatever the comment and the world, the side effects of
  \<^verbatim>\<open>handle_incoming_comment\<close> are none, or the one insertion of this comment into
  the staging store, or one reply to this comment; so there is at most one, and a
  trace with a reply has no insertion.
\<close>

theorem phase1_one_side_effect:
  "(side_effects (fst (handle_incoming_comment w c)) = []
    \<or> side_effects (fst (handle_incoming_comment w c)) = [AddComment c]
    \<or> (\<exists>a k t p. side_effects (fst (handle_incoming_comment w c))
                    = [PostReply a (comment_id c) k t p]))
   \<and> length (side_effects (fst (handle_incoming_comment w c))) \<le> 1
   \<and> \<not> (list_ex is_reply (fst (handle_incoming_comment w c))
          \<and> list_ex is_staging_insert (fst (handle_incoming_comment w c)))"
proof -
  let ?tr = "fst (handle_incoming_comment w c)"
  have reply: "list_ex is_reply tr = list_ex is_reply (side_effects tr)" for tr
    by (induction tr) (auto simp: side_effects_def elim: is_reply.elims)
  from handle_side_effects [of w c] show ?thesis
    unfolding reply [of ?tr] staging_insert_side_effect [of ?tr] by auto
qed

theorem phase1_one_side_effect_witness:
  "side_effects (fst (handle_incoming_comment
     (example_world (Inl (search_error ''received 404 HTTP response'' not_found_payload)) [])
     example_comment)) = []"
  using phase1_one_side_effect
    [of "example_world (Inl (search_error ''received 404 HTTP response'' not_found_payload)) []"
        example_comment]
  by (simp add: handle_after_search [OF example_reaches_search] example_search_keyerror
        side_effects_def)

text \<open>
  Claim C8. A comment that is not top-level is never inserted into the staging store;
  and when such a comment reaches the search and the search neither finds a post nor
  reports that the target does not exist, the handler returns with no side effect.
\<close>

theorem non_top_level_comment_dropped:
  assumes "\<not> is_top_level_comment c"
  shows "\<not> list_ex is_staging_insert (fst (handle_incoming_comment w c))
       \<and> (reaches_search w c t \<and> get_posts_with_same_content w c t = (tr, Inr r)
            \<and> \<not> posts_found r
            \<and> \<not> (unable_to_search r \<and> unable_to_search_reason r = Some ''SUBREDDIT_DOES_NOT_EXIST'')
          \<longrightarrow> handle_incoming_comment w c = (tr, None))"
proof -
  from handle_side_effects [of w c] assms
  have "\<not> list_ex is_staging_insert (fst (handle_incoming_comment w c))"
    unfolding staging_insert_side_effect [of "fst (handle_incoming_comment w c)"] by auto
  moreover have "handle_incoming_comment w c = (tr, None)"
    if "reaches_search w c t" and "get_posts_with_same_content w c t = (tr, Inr r)"
      and "\<not> posts_found r"
      and "\<not> (unable_to_search r \<and> unable_to_search_reason r = Some ''SUBREDDIT_DOES_NOT_EXIST'')"
    using that assms by (auto simp: handle_after_search)
  ultimately show ?thesis by blast
qed

theorem non_top_level_comment_dropped_witness:
  "handle_incoming_comment (example_world (Inr []) []) (example_comment\<lparr>parent_id := ''t1_zzz''\<rparr>)
   = ([SearchQuery ''cats'' (search_query example_comment), RepostLookup ''c1'' ''cats''], None)"
proof -
  have "\<not> is_top_level_comment (example_comment\<lparr>parent_id := ''t1_zzz''\<rparr>)"
    by (simp add: is_top_level_comment_def example_comment_def)
  from non_top_level_comment_dropped [OF this, of "example_world (Inr []) []" "''cats''"
      "[SearchQuery ''cats'' (search_query example_comment), RepostLookup ''c1'' ''cats'']"
      new_search_result]
  show ?thesis
    using example_reply_reaches_search [of "Inr []" "[]" "''t1_zzz''"]
      example_search_empty [of "''t1_zzz''"]
    by (simp add: new_search_result_def)
qed

text \<open>
  Claim C4, where the code departs from it. A 404 response whose payload is a JSON
  object without the key \<^verbatim>\<open>reason\<close> is not classified as
  \<^verbatim>\<open>SUBREDDIT_DOES_NOT_EXIST\<close>: the lookup of the key raises \<^verbatim>\<open>KeyError\<close>, which
  the handler does not catch.
\<close>

theorem search_payload_without_reason_raises:
  "get_posts_with_same_content
     (example_world (Inl (search_error ''received 404 HTTP response'' not_found_payload)) [])
     example_comment ''cats''
   = ([SearchQuery ''cats'' (search_query example_comment)], Inl (KeyError ''reason''))"
  by (simp add: get_posts_with_same_content_def example_world_def handle_search_exception_def
        search_error_def example_json_loads_def not_found_payload_def banned_payload_def
        new_search_result_def)

text \<open>
  Claim C5, where the code departs from it. After a redirect to \<^verbatim>\<open>/submit\<close> the
  function returns the empty result at once: the repost detector, which would report
  a post, is not called. After an empty list of results it is called, and its post
  is returned as found.
\<close>

theorem redirect_to_submit_skips_repost_detector:
  "get_posts_with_same_content
     (example_world (Inl (search_error ''Redirect to /submit'' [])) [example_submission])
     example_comment ''cats''
   = ([SearchQuery ''cats'' (search_query example_comment)], Inr new_search_result)
   \<and> get_posts_with_same_content (example_world (Inr []) [example_submission]) example_comment ''cats''
   = ([SearchQuery ''cats'' (search_query example_comment), RepostLookup ''c1'' ''cats''],
      Inr (new_search_result\<lparr>posts_found := True, posts := [example_submission]\<rparr>))"
  by (simp add: get_posts_with_same_content_def example_world_def handle_search_exception_def
        search_error_def new_search_result_def example_comment_def)

section \<open>Phase 2: results\<close>

text \<open>
  Claim C10. For every world and every entry, \<^verbatim>\<open>run_filters\<close> raises
  \<^verbatim>\<open>NameError\<close> for the name \<^verbatim>\<open>target_subreddit\<close> before it makes any call, so
  \<^verbatim>\<open>process_comment_entry\<close> ends with that exception and an empty trace, which holds
  no deletion. And for any value of \<^verbatim>\<open>Result\<close>, \<^verbatim>\<open>result != False\<close> is true and the
  only call made is the one that marks the entry checked.
\<close>

theorem delete_never_invoked:
  "run_filters w comment_entry = ([], Inl (NameError ''target_subreddit''))
   \<and> process_comment_entry w comment_entry = ([], Some (NameError ''target_subreddit''))
   \<and> DeleteComment e \<notin> set (fst (process_comment_entry w comment_entry))
   \<and> instance_ne result (PyBool False)
   \<and> record_verdict result comment_entry = [SetCommentChecked comment_entry]"
proof -
  have filters: "run_filters w comment_entry = ([], Inl (NameError ''target_subreddit''))"
    by (simp add: run_filters_def Result_class_raises)
  then have entry: "process_comment_entry w comment_entry = ([], Some (NameError ''target_subreddit''))"
    by (simp add: process_comment_entry_def)
  then have no_delete: "DeleteComment e \<notin> set (fst (process_comment_entry w comment_entry))"
    by simp
  have guard: "instance_ne result (PyBool False)"
    by simp
  then have verdict: "record_verdict result comment_entry = [SetCommentChecked comment_entry]"
    by (simp add: record_verdict_def)
  from filters entry no_delete guard verdict show ?thesis
    by blast
qed

theorem delete_never_invoked_witness:
  "process_comment_entry deleted_comment_world example_entry
     = ([], Some (NameError ''target_subreddit''))
   \<and> record_verdict (new_filter_result [(''passes_filter'', PyBool False)]) example_entry
     = [SetCommentChecked example_entry]"
  using delete_never_invoked
    [where w = deleted_comment_world and comment_entry = example_entry and e = example_entry
       and result = "new_filter_result [(''passes_filter'', PyBool False)]"]
  by simp

text \<open>
  Claim C2, where the code departs from it. The comment of the entry has been
  deleted. \<^verbatim>\<open>process_comment_entry\<close> ends with the \<^verbatim>\<open>NameError\<close> of
  \<^verbatim>\<open>run_filters\<close> and touches the store not at all. Were the class statement to
  succeed, the rest of \<^verbatim>\<open>run_filters\<close> would report the failure
  \<^verbatim>\<open>COMMENT_UNAVAILABLE\<close>, and on that result the entry is marked checked, not
  deleted.
\<close>

theorem failed_entry_not_deleted:
  "process_comment_entry deleted_comment_world example_entry
     = ([], Some (NameError ''target_subreddit''))
   \<and> run_filters_from deleted_comment_world example_entry (new_filter_result [])
     = ([FetchComment ''https://www.reddit.com/r/pics/comments/abc/a_cat/c1/''],
        Inr \<lparr>passes_filter = False, reason = Some ''COMMENT_UNAVAILABLE'', result_comment = None,
             target_subreddit = None, post_with_same_content = None\<rparr>)
   \<and> record_verdict
        \<lparr>passes_filter = False, reason = Some ''COMMENT_UNAVAILABLE'', result_comment = None,
         target_subreddit = None, post_with_same_content = None\<rparr> example_entry
     = [SetCommentChecked example_entry]"
  by (simp add: run_filters_def process_comment_entry_def Result_class_raises record_verdict_def
        run_filters_from_def deleted_comment_world_def example_world_def example_entry_def
        get_full_comment_from_reddit_def check_comment_availability_def new_filter_result_def)

text \<open>
  Claim C6, where the code departs from it. For an entry whose comment has been
  deleted, and for one whose comment is there with a score below the threshold,
  \<^verbatim>\<open>run_filters\<close> reports no reason: it raises \<^verbatim>\<open>NameError\<close> before the first check.
\<close>

theorem run_filters_reports_no_reason:
  "run_filters deleted_comment_world example_entry = ([], Inl (NameError ''target_subreddit''))
   \<and> run_filters ((example_world (Inr []) [])\<lparr>COMMENT_SCORE_THRESHOLD := Some 10\<rparr>) example_entry
     = ([], Inl (NameError ''target_subreddit''))"
  by (simp add: run_filters_def Result_class_raises)

section \<open>The stream consumer: results\<close>

lemma main_except_transient:
  "listed_transient_fault e \<Longrightarrow> main_except False e = ([LogNetworkError e, Sleep 30], None)"
  by (cases e) (simp_all add: main_except_def)

lemma main_except_other:
  "\<not> listed_transient_fault e \<Longrightarrow> main_except False e = ([], Some e)"
  by (cases e) (simp_all add: main_except_def)

lemma main_loop_Nil: "main_loop False [] = ([ListenToStream], Running)"
  by (subst main_loop.simps) (simp add: listen_to_comment_stream_def)

lemma main_loop_fatal:
  "\<not> listed_transient_fault e \<Longrightarrow>
     main_loop False (StreamRaises e # rest) = ([ListenToStream], Terminated e)"
  by (subst main_loop.simps) (simp add: listen_to_comment_stream_def main_except_other)

text \<open>
  One survivable item in front of a script adds its actions after the first
  \<^verbatim>\<open>listen_to_comment_stream\<close> and changes nothing else.
\<close>

lemma main_loop_step:
  assumes "survivable x" and "main_loop False xs = (ListenToStream # acts, r)"
  shows "main_loop False (x # xs) = (ListenToStream # item_actions x @ acts, r)"
proof (cases x)
  case StreamEnds
  with assms(2) show ?thesis
    by (subst main_loop.simps) (simp add: listen_to_comment_stream_def)
next
  case (StreamRaises e)
  with assms show ?thesis
    by (subst main_loop.simps) (simp add: listen_to_comment_stream_def main_except_transient)
next
  case (Yields h)
  obtain acts0 r0 rest0 where f: "stream_for_loop False xs = (acts0, r0, rest0)"
    by (cases "stream_for_loop False xs")
  from Yields assms(1) obtain a where a: "item_actions x = [a]"
    and g: "stream_for_loop False (x # xs) = (a # acts0, r0, rest0)"
    using f by (cases h) auto
  have tail: "main_loop False xs =
      (case (ListenToStream # acts0, r0, rest0) of
         (acts, Waiting, rest) \<Rightarrow> (acts, Running)
       | (acts, Returned, rest) \<Rightarrow>
           (case main_loop False rest of (acts', r) \<Rightarrow> (acts @ acts', r))
       | (acts, Raised e, rest) \<Rightarrow>
           (case main_except False e of
              (acts1, Some e') \<Rightarrow> (acts @ acts1, Terminated e')
            | (acts1, None) \<Rightarrow>
                (case main_loop False rest of (acts', r) \<Rightarrow> (acts @ acts1 @ acts', r))))"
    by (subst main_loop.simps) (simp add: listen_to_comment_stream_def f)
  have head: "main_loop False (x # xs) =
      (case (ListenToStream # a # acts0, r0, rest0) of
         (acts, Waiting, rest) \<Rightarrow> (acts, Running)
       | (acts, Returned, rest) \<Rightarrow>
           (case main_loop False rest of (acts', r) \<Rightarrow> (acts @ acts', r))
       | (acts, Raised e, rest) \<Rightarrow>
           (case main_except False e of
              (acts1, Some e') \<Rightarrow> (acts @ acts1, Terminated e')
            | (acts1, None) \<Rightarrow>
                (case main_loop False rest of (acts', r) \<Rightarrow> (acts @ acts1 @ acts', r))))"
    by (subst main_loop.simps) (simp add: listen_to_comment_stream_def g)
  from assms(2) show ?thesis
    unfolding head tail a
    by (auto split: listen_result.splits prod.splits option.splits)
qed

lemma main_loop_prefix:
  assumes "list_all survivable pre" and "main_loop False tail = (ListenToStream # acts, r)"
  shows "main_loop False (pre @ tail) = (ListenToStream # concat (map item_actions pre) @ acts, r)"
  using assms
proof (induction pre)
  case Nil
  then show ?case by simp
next
  case (Cons x pre)
  then have "main_loop False (pre @ tail) = (ListenToStream # concat (map item_actions pre) @ acts, r)"
    by simp
  with Cons.prems(1) main_loop_step [of x "pre @ tail"] show ?case
    by simp
qed

text \<open>
  Claim C9, as the code has it. In production mode, as long as every fault raised by
  the stream itself is one of the listed transient faults and every exception raised
  while one comment is handled derives from \<^verbatim>\<open>Exception\<close>, the loop of \<^verbatim>\<open>main\<close>
  does not terminate: at the end of any such script it is still running. A listed
  fault of the stream is logged and followed by a sleep of 30 seconds and a new call
  of \<^verbatim>\<open>listen_to_comment_stream\<close>; an exception while a comment is handled, a
  listed fault among them, is logged and the next comment is taken, with no sleep; a
  stream that ends is listened to again. Any other exception that the stream itself
  raises after such a script leaves \<^verbatim>\<open>main\<close> and ends the loop, whatever would have
  followed.
\<close>

theorem production_loop_behaviour:
  assumes "list_all survivable script"
  shows "main_loop False script = (ListenToStream # concat (map item_actions script), Running)
       \<and> (\<not> listed_transient_fault e \<longrightarrow>
            main_loop False (script @ StreamRaises e # rest)
              = (ListenToStream # concat (map item_actions script), Terminated e))"
proof -
  from main_loop_prefix [OF assms main_loop_Nil]
  have "main_loop False script = (ListenToStream # concat (map item_actions script), Running)"
    by simp
  moreover have "main_loop False (script @ StreamRaises e # rest)
      = (ListenToStream # concat (map item_actions script), Terminated e)"
    if "\<not> listed_transient_fault e"
    using main_loop_prefix [OF assms main_loop_fatal [OF that]] by simp
  ultimately show ?thesis by blast
qed

theorem production_loop_behaviour_witness:
  "main_loop False
     [Yields None, StreamRaises ServerError, Yields (Some (OtherException ''ValueError'')),
      StreamRaises (RequestException (Some [ReadTimeoutError])), Yields (Some Forbidden)]
   = ([ListenToStream, Handled, LogNetworkError ServerError, Sleep 30, ListenToStream,
       LogException (OtherException ''ValueError''),
       LogNetworkError (RequestException (Some [ReadTimeoutError])), Sleep 30, ListenToStream,
       LogException Forbidden], Running)
   \<and> main_loop False
     ([Yields None, StreamRaises ServerError, Yields (Some (OtherException ''ValueError'')),
       StreamRaises (RequestException (Some [ReadTimeoutError])), Yields (Some Forbidden)]
      @ StreamRaises (OtherException ''TooManyRequests'') # [Yields None])
   = ([ListenToStream, Handled, LogNetworkError ServerError, Sleep 30, ListenToStream,
       LogException (OtherException ''ValueError''),
       LogNetworkError (RequestException (Some [ReadTimeoutError])), Sleep 30, ListenToStream,
       LogException Forbidden], Terminated (OtherException ''TooManyRequests''))"
proof -
  have "list_all survivable
     [Yields None, StreamRaises ServerError, Yields (Some (OtherException ''ValueError'')),
      StreamRaises (RequestException (Some [ReadTimeoutError])), Yields (Some Forbidden)]"
    by (simp add: is_max_retry_or_read_timeout_error_def)
  from production_loop_behaviour [OF this, of "OtherException ''TooManyRequests''" "[Yields None]"]
  show ?thesis
    by simp
qed

text \<open>
  Claim C9 as stated fails. In production mode a \<^verbatim>\<open>RequestException\<close> of the stream
  that wraps neither a max-retries nor a read-timeout error is raised again and ends
  \<^verbatim>\<open>main\<close>; and a listed fault raised while a comment is handled is logged like any
  other exception, with no sleep and no new stream.
\<close>

theorem production_loop_counterexample:
  "main_loop False [StreamRaises (RequestException (Some [OtherOriginalArg])), Yields None]
     = ([ListenToStream], Terminated (RequestException (Some [OtherOriginalArg])))
   \<and> main_loop False [Yields (Some ServerError)]
     = ([ListenToStream, LogException ServerError], Running)"
  by (simp add: main_loop.simps [of False "[StreamRaises (RequestException (Some [OtherOriginalArg])), Yields None]"]
        main_loop.simps [of False "[Yields (Some ServerError)]"]
        listen_to_comment_stream_def main_except_def is_max_retry_or_read_timeout_error_def)

end
